theory Spec2Isabelle
  imports Complex_Main
begin

section \<open>Numbers and strings of the bridge\<close>

text \<open>
  The program is \<^verbatim>\<open>AlpacaTVBridge.py\<close>: a webhook that turns an alert text into an
  order for a broker and then watches the order until it ends.  Strings are lists of
  ASCII characters.

  Python's \<^verbatim>\<open>float\<close> is the IEEE double.  A double is a rational, and the arithmetic
  of the source is embedded on rationals with the rounding written out: \<open>fl\<close> takes a
  rational to the nearest double, a tie going to the even significand (53 bits, with
  the subnormal spacing \<open>two_pow (- 1074)\<close> at the bottom; nothing here comes near
  the overflow threshold, which is not represented).  Each operation rounds the exact
  result of its operands, read as doubles.
\<close>

definition py_int :: "rat \<Rightarrow> int" where
  \<comment> \<open>\<^verbatim>\<open>int(x)\<close> on a float: truncation towards zero.\<close>
  "py_int x = (if 0 \<le> x then \<lfloor>x\<rfloor> else \<lceil>x\<rceil>)"

definition round_half_even :: "rat \<Rightarrow> int" where
  "round_half_even x =
     (let f = \<lfloor>x\<rfloor>; d = x - of_int f
      in if d < 1 / 2 then f else if 1 / 2 < d then f + 1 else if even f then f else f + 1)"

function bit_length :: "int \<Rightarrow> nat" where
  \<comment> \<open>the number of binary digits of a positive integer\<close>
  "bit_length n = (if n \<le> 0 then 0 else Suc (bit_length (n div 2)))"
  by pat_completeness auto
termination
  by (relation "measure nat") auto

declare bit_length.simps [simp del]

definition two_pow :: "int \<Rightarrow> rat" where
  "two_pow e = (if 0 \<le> e then 2 ^ nat e else 1 / 2 ^ nat (- e))"

definition binade :: "rat \<Rightarrow> int" where
  \<comment> \<open>for \<open>r > 0\<close>, the exponent \<open>e\<close> with \<open>two_pow e \<le> r < two_pow (e + 1)\<close>\<close>
  "binade r =
     (case quotient_of r of
        (p, q) \<Rightarrow>
          (let e0 = int (bit_length p) - int (bit_length q)
           in if two_pow e0 \<le> r then e0 else e0 - 1))"

definition fl :: "rat \<Rightarrow> rat" where
  \<comment> \<open>the nearest double\<close>
  "fl x =
     (if x = 0 then 0
      else let u = two_pow (max (binade \<bar>x\<bar> - 52) (- 1074))
           in sgn x * of_int (round_half_even (\<bar>x\<bar> / u)) * u)"

definition fmul :: "rat \<Rightarrow> rat \<Rightarrow> rat" where
  "fmul a b = fl (fl a * fl b)"

definition fdiv :: "rat \<Rightarrow> rat \<Rightarrow> rat" where
  "fdiv a b = fl (fl a / fl b)"

definition fadd :: "rat \<Rightarrow> rat \<Rightarrow> rat" where
  "fadd a b = fl (fl a + fl b)"

definition fsub :: "rat \<Rightarrow> rat \<Rightarrow> rat" where
  "fsub a b = fl (fl a - fl b)"

definition py_round :: "rat \<Rightarrow> nat \<Rightarrow> rat" where
  \<comment> \<open>\<^verbatim>\<open>round(x, n)\<close> on a float: the exact value of the double is rounded to \<open>n\<close>
      decimals, a tie going to the even neighbour, and that decimal is read back as a
      double.\<close>
  "py_round x n = fl (of_int (round_half_even (fl x * 10 ^ n)) / 10 ^ n)"

definition lower :: "char \<Rightarrow> char" where
  "lower c =
     (case map_of (zip ''ABCDEFGHIJKLMNOPQRSTUVWXYZ'' ''abcdefghijklmnopqrstuvwxyz'') c of
        Some d \<Rightarrow> d
      | None \<Rightarrow> c)"

definition digit_val :: "char \<Rightarrow> nat option" where
  "digit_val c = map_of (zip ''0123456789'' [0, 1, 2, 3, 4, 5, 6, 7, 8, 9]) c"

fun digits_val :: "nat \<Rightarrow> string \<Rightarrow> nat option" where
  "digits_val acc [] = Some acc"
| "digits_val acc (c # cs) =
     (case digit_val c of None \<Rightarrow> None | Some d \<Rightarrow> digits_val (10 * acc + d) cs)"

definition py_float :: "string \<Rightarrow> rat option" where
  \<comment> \<open>\<^verbatim>\<open>float(s)\<close> on a text of digits and dots: the double nearest to the decimal;
      \<open>None\<close> is the ValueError of a text with no digit, with two dots or with any
      other character.\<close>
  "py_float s =
     (let ip = takeWhile (\<lambda>c. c \<noteq> CHR ''.'') s; rest = dropWhile (\<lambda>c. c \<noteq> CHR ''.'') s
      in case rest of
           [] \<Rightarrow> (if ip = [] then None else map_option (\<lambda>i. fl (of_nat i)) (digits_val 0 ip))
         | _ # fp \<Rightarrow>
             (if ip = [] \<and> fp = [] then None
              else case (digits_val 0 ip, digits_val 0 fp) of
                     (Some i, Some f) \<Rightarrow> Some (fl (of_nat i + of_nat f / 10 ^ length fp))
                   | _ \<Rightarrow> None))"

section \<open>The two alert grammars\<close>

text \<open>
  \<^verbatim>\<open>setData\<close> calls \<^verbatim>\<open>re.search\<close> with \<^verbatim>\<open>re.IGNORECASE\<close> on one of two patterns.
  The patterns are embedded as syntax trees and run by a backtracking matcher with
  Python's priorities: the leftmost start, the first alternative, greedy repetition
  longest first, lazy repetition shortest first.  Only single characters are repeated
  in the two patterns, so a repetition is over an \<open>item\<close>.
\<close>

datatype item = Dot | Lit char | OneOf string

fun item_ok :: "item \<Rightarrow> char \<Rightarrow> bool" where
  "item_ok Dot c = (c \<noteq> CHR 0x0A)"
| "item_ok (Lit a) c = (lower c = lower a)"
| "item_ok (OneOf s) c = (lower c \<in> set (map lower s))"

datatype rx =
    Eps
  | Atom item
  | Seq rx rx
  | Alt rx rx
  | Opt rx
  | Many bool nat item  \<comment> \<open>greedy?, least number of repetitions, the repeated item\<close>
  | Grp nat rx

datatype frame = Run rx | EndGrp nat string

fun rx_weight :: "rx \<Rightarrow> nat" where
  "rx_weight Eps = 1"
| "rx_weight (Atom i) = 1"
| "rx_weight (Seq a b) = rx_weight a + rx_weight b + 1"
| "rx_weight (Alt a b) = rx_weight a + rx_weight b + 1"
| "rx_weight (Opt a) = rx_weight a + 1"
| "rx_weight (Many g m i) = 1"
| "rx_weight (Grp n a) = rx_weight a + 2"

fun frame_weight :: "frame \<Rightarrow> nat" where
  "frame_weight (Run r) = rx_weight r"
| "frame_weight (EndGrp n s) = 1"

text \<open>
  \<open>rx_match k s caps\<close> runs the frames \<open>k\<close> still to be matched on the rest \<open>s\<close> of
  the text; \<open>caps\<close> holds the groups closed so far, the latest first.  A group that
  was entered and then given up by backtracking leaves no capture.
\<close>

function rx_match ::
  "frame list \<Rightarrow> string \<Rightarrow> (nat \<times> string) list \<Rightarrow> (nat \<times> string) list option" where
  "rx_match [] s caps = Some caps"
| "rx_match (EndGrp n s0 # k) s caps =
     rx_match k s ((n, take (length s0 - length s) s0) # caps)"
| "rx_match (Run Eps # k) s caps = rx_match k s caps"
| "rx_match (Run (Atom i) # k) [] caps = None"
| "rx_match (Run (Atom i) # k) (c # cs) caps =
     (if item_ok i c then rx_match k cs caps else None)"
| "rx_match (Run (Seq a b) # k) s caps = rx_match (Run a # Run b # k) s caps"
| "rx_match (Run (Alt a b) # k) s caps =
     (case rx_match (Run a # k) s caps of
        Some r \<Rightarrow> Some r
      | None \<Rightarrow> rx_match (Run b # k) s caps)"
| "rx_match (Run (Opt a) # k) s caps =
     (case rx_match (Run a # k) s caps of
        Some r \<Rightarrow> Some r
      | None \<Rightarrow> rx_match k s caps)"
| "rx_match (Run (Grp n a) # k) s caps = rx_match (Run a # EndGrp n s # k) s caps"
| "rx_match (Run (Many True m i) # k) [] caps =
     (if m = 0 then rx_match k [] caps else None)"
| "rx_match (Run (Many True m i) # k) (c # cs) caps =
     (case (if item_ok i c then rx_match (Run (Many True (m - 1) i) # k) cs caps else None) of
        Some r \<Rightarrow> Some r
      | None \<Rightarrow> if m = 0 then rx_match k (c # cs) caps else None)"
| "rx_match (Run (Many False m i) # k) s caps =
     (case (if m = 0 then rx_match k s caps else None) of
        Some r \<Rightarrow> Some r
      | None \<Rightarrow>
          (case s of
             [] \<Rightarrow> None
           | c # cs \<Rightarrow>
               if item_ok i c then rx_match (Run (Many False (m - 1) i) # k) cs caps
               else None))"
  by pat_completeness auto
termination
  by (relation "measures [\<lambda>(k, s, caps). length s,
                          \<lambda>(k, s, caps). sum_list (map frame_weight k)]") auto

fun re_search :: "rx \<Rightarrow> string \<Rightarrow> (nat \<times> string) list option" where
  "re_search r [] = rx_match [Run r] [] []"
| "re_search r (c # cs) =
     (case rx_match [Run r] (c # cs) [] of
        Some caps \<Rightarrow> Some caps
      | None \<Rightarrow> re_search r cs)"

definition groups :: "nat \<Rightarrow> (nat \<times> string) list \<Rightarrow> string option list" where
  \<comment> \<open>\<^verbatim>\<open>match.groups()\<close>: group \<open>1\<close> to \<open>n\<close>, \<open>None\<close> for a group that took no part.\<close>
  "groups n caps = map (map_of caps) [1..<Suc n]"

fun lit :: "string \<Rightarrow> rx" where
  "lit [] = Eps"
| "lit [c] = Atom (Lit c)"
| "lit (c # cs) = Seq (Atom (Lit c)) (lit cs)"

fun seqs :: "rx list \<Rightarrow> rx" where
  "seqs [] = Eps"
| "seqs [r] = r"
| "seqs (r # rs) = Seq r (seqs rs)"

definition price_rx :: "nat \<Rightarrow> rx list" where
  \<comment> \<open>\<^verbatim>\<open>(.+)[@]\[*([0-9.]+)\]* [|]\<close>, the symbol in group \<open>g\<close>, the price in the next.\<close>
  "price_rx g =
     [Grp g (Many True 1 Dot),
      Atom (OneOf ''@''),
      Many True 0 (Lit CHR ''[''),
      Grp (Suc g) (Many True 1 (OneOf ''0123456789.'')),
      Many True 0 (Lit CHR '']''),
      Atom (Lit CHR '' ''),
      Atom (OneOf ''|'')]"

definition ldc_rx :: rx where
  \<comment> \<open>\<^verbatim>\<open>(bear|bull|open|close).+?(long|short)?.+[|] (.+)[@]\[*([0-9.]+)\]* [|]\<close>\<close>
  "ldc_rx =
     seqs ([Grp 1 (Alt (lit ''bear'') (Alt (lit ''bull'') (Alt (lit ''open'') (lit ''close'')))),
            Many False 1 Dot,
            Opt (Grp 2 (Alt (lit ''long'') (lit ''short''))),
            Many True 1 Dot,
            Atom (OneOf ''|''),
            Atom (Lit CHR '' '')] @ price_rx 3)"

definition order_rx :: rx where
  \<comment> \<open>\<^verbatim>\<open>order (buy|sell) [|] (.+)[@]\[*([0-9.]+)\]* [|]\<close>\<close>
  "order_rx =
     seqs ([lit ''order '',
            Grp 1 (Alt (lit ''buy'') (lit ''sell'')),
            Atom (Lit CHR '' ''),
            Atom (OneOf ''|''),
            Atom (Lit CHR '' '')] @ price_rx 2)"

section \<open>Data of the bridge\<close>

datatype OrderSide = BUY | SELL

datatype TimeInForce = GTC

text \<open>The two request classes of the broker library that \<^verbatim>\<open>orderType\<close> builds.\<close>

datatype order_request =
    MarketOrderRequest string rat OrderSide TimeInForce
      \<comment> \<open>symbol, qty, side, time in force\<close>
  | LimitOrderRequest string rat rat OrderSide TimeInForce
      \<comment> \<open>symbol, limit price, qty, side, time in force\<close>

fun req_symbol :: "order_request \<Rightarrow> string" where
  "req_symbol (MarketOrderRequest s q d t) = s"
| "req_symbol (LimitOrderRequest s p q d t) = s"

fun req_qty :: "order_request \<Rightarrow> rat" where
  "req_qty (MarketOrderRequest s q d t) = q"
| "req_qty (LimitOrderRequest s p q d t) = q"

fun req_side :: "order_request \<Rightarrow> OrderSide" where
  "req_side (MarketOrderRequest s q d t) = d"
| "req_side (LimitOrderRequest s p q d t) = d"

text \<open>An order as the broker reports it; the three time stamps are \<open>None\<close> while it is open.\<close>

record Order =
  id_hex :: string
  client_order_id :: string
  side :: OrderSide
  qty :: rat
  filled_qty :: rat
  filled_at :: "nat option"
  failed_at :: "nat option"
  canceled_at :: "nat option"

record Position =
  position_qty :: rat

text \<open>\<^verbatim>\<open>self.data\<close>, the parsed alert: the texts are the captured groups as they stand.\<close>

record data =
  action :: string
  position :: "string option"
  stock :: string
  price :: rat

text \<open>
  \<^verbatim>\<open>self.options\<close>.  The dictionary comes from \<^verbatim>\<open>settings.py\<close>, which is not part of
  the sources; its keys are the ones the program reads and writes.
\<close>

record Options =
  short :: bool
  buyPerc :: rat
  balance :: rat
  positions :: "Position option"
  orders :: "Order list"
  allOrders :: "Order list"
  testMode :: bool
  enabled :: bool
  limit :: bool
  limitamt :: rat
  limitThreshold :: rat
  limitPerc :: rat
  maxTime :: rat
  totalMaxTime :: rat
  buyTimeout :: string
  sellTimeout :: string

section \<open>The broker and the clock\<close>

text \<open>
  The broker client, the clock and the log are outside the program.  Every interaction
  is appended to a trace of events; what the outside answers is given by a \<open>broker\<close>,
  a family of answers indexed by the number of events before the call, so that any
  sequence of answers can be written down.  Broker calls are taken to answer (a call
  that raises is not represented, apart from \<^verbatim>\<open>get_open_position\<close>, whose exception the
  program catches).
\<close>

datatype call =
    get_orders
  | get_orders_for string
  | get_open_position string
  | get_account
  | submit_order order_request
  | get_order_by_client_id string
  | cancel_order_by_id string

datatype level = DEBUG | INFO | WARNING | ERROR

datatype logmsg =
    ReceivedRequest
  | FailedToExtract
  | InvalidWebhook
  | ConfigConflictMsg
  | NegativeBalance
  | AlreadyShorted
  | ShortingNotEnabled
  | SellingAllPositions
  | ShortNotNeeded
  | UnhandledOrder
  | ZeroOrdersRequested
  | NegativeOrdersRequested
  | NotEnabledNotPlaced
  | NotEnabledNotCanceled
  | CanceledOrderFor string
  | ExceededMaxTime
  | OrderCancelFailed
  | TimeoutMarketSucceeded
  | TimeoutMarketFailed
  | TimeoutSettingMissing
  | ExceededTotalMaxTime
  | OrderCanceled
  | OrderFailed
  | OrderFilled

datatype event = Call call | Time | Sleep | Log level logmsg

record broker =
  orders_reply :: "nat \<Rightarrow> Order list"
  orders_for_reply :: "nat \<Rightarrow> string \<Rightarrow> Order list"
  position_reply :: "nat \<Rightarrow> string \<Rightarrow> Position option"
  cash_reply :: "nat \<Rightarrow> rat"
  submit_reply :: "nat \<Rightarrow> order_request \<Rightarrow> Order"
  order_reply :: "nat \<Rightarrow> string \<Rightarrow> Order"
  time_reply :: "nat \<Rightarrow> rat"

text \<open>
  The object.  \<^verbatim>\<open>__init__\<close> binds \<^verbatim>\<open>self.options\<close> to the module's \<^verbatim>\<open>settings\<close>
  dictionary itself, so the field \<open>options\<close> is that dictionary: what a method writes
  there is what the module holds afterwards.  \<open>data\<close>, \<open>order_data\<close> and \<open>order\<close>
  are \<open>None\<close> until the attribute is assigned.
\<close>

record AutomatedTrader =
  options :: Options
  api_key :: string
  secret_key :: string
  paper :: bool
  req :: string
  data :: "data option"
  order_data :: "order_request option"
  order :: "Order option"
  events :: "event list"

datatype error =
    NameError
  | ExtraOptions
  | ConfigConflict
  | ExtractFailed
  | ValueError
  | AttributeError
  | ZeroDivisionError
  | UnboundLocalError
  | CancelOrderFailed
  | TimeoutSettingNotFound

text \<open>
  What a method does: it returns a value, or raises, both with the object as it then
  is; \<open>OutOfFuel\<close> is a polling loop that has not ended within the steps given.
\<close>

datatype 'a result = Returned 'a AutomatedTrader | Raised error AutomatedTrader | OutOfFuel

definition emit :: "event \<Rightarrow> AutomatedTrader \<Rightarrow> AutomatedTrader" where
  "emit e self = self\<lparr>events := events self @ [e]\<rparr>"

definition log :: "level \<Rightarrow> logmsg \<Rightarrow> AutomatedTrader \<Rightarrow> AutomatedTrader" where
  "log l m self = emit (Log l m) self"

definition time_time :: "broker \<Rightarrow> AutomatedTrader \<Rightarrow> rat \<times> AutomatedTrader" where
  "time_time B self = (time_reply B (length (events self)), emit Time self)"

definition client_get_order_by_client_id ::
  "broker \<Rightarrow> string \<Rightarrow> AutomatedTrader \<Rightarrow> Order \<times> AutomatedTrader" where
  "client_get_order_by_client_id B cid self =
     (order_reply B (length (events self)) cid, emit (Call (get_order_by_client_id cid)) self)"

definition client_submit_order ::
  "broker \<Rightarrow> order_request \<Rightarrow> AutomatedTrader \<Rightarrow> Order \<times> AutomatedTrader" where
  "client_submit_order B r self =
     (submit_reply B (length (events self)) r, emit (Call (submit_order r)) self)"

definition client_cancel_order_by_id :: "string \<Rightarrow> AutomatedTrader \<Rightarrow> AutomatedTrader" where
  "client_cancel_order_by_id i self = emit (Call (cancel_order_by_id i)) self"

definition and_then ::
  "'a result \<Rightarrow> (AutomatedTrader \<Rightarrow> 'b result) \<Rightarrow> 'b result" where
  "and_then r f =
     (case r of
        Returned v self \<Rightarrow> f self
      | Raised e self \<Rightarrow> Raised e self
      | OutOfFuel \<Rightarrow> OutOfFuel)"

section \<open>Parsing the alert: setData\<close>

definition search_groups :: "string \<Rightarrow> string option list option" where
  \<comment> \<open>the \<^verbatim>\<open>re.search\<close> of \<^verbatim>\<open>setData\<close> and the \<^verbatim>\<open>groups()\<close> of its match\<close>
  "search_groups r =
     (if take 3 r = ''LDC'' then map_option (groups 4) (re_search ldc_rx r)
      else map_option (groups 3) (re_search order_rx r))"

text \<open>
  The captured texts go into \<^verbatim>\<open>self.data\<close> as they are.  In both patterns the
  action, the symbol and the price always take part in a match; the last case is the
  source's \<^verbatim>\<open>else\<close>, which only logs.
\<close>

definition setData :: "AutomatedTrader \<Rightarrow> unit result" where
  "setData self =
     (case search_groups (req self) of
        None \<Rightarrow> Raised ExtractFailed (log ERROR FailedToExtract self)
      | Some [Some a, Some s, Some p] \<Rightarrow>
          (case py_float p of
             None \<Rightarrow> Raised ValueError self
           | Some v \<Rightarrow>
               Returned () (self\<lparr>data :=
                 Some \<lparr>action = a, position = None, stock = s, price = v\<rparr>\<rparr>))
      | Some [Some a, h, Some s, Some p] \<Rightarrow>
          (case py_float p of
             None \<Rightarrow> Raised ValueError self
           | Some v \<Rightarrow>
               Returned () (self\<lparr>data :=
                 Some \<lparr>action = a, position = h, stock = s, price = v\<rparr>\<rparr>))
      | Some _ \<Rightarrow> Returned () (log ERROR InvalidWebhook self))"

section \<open>Reading the account: setOrders, setPosition, setBalance\<close>

definition setOrders :: "broker \<Rightarrow> AutomatedTrader \<Rightarrow> unit result" where
  "setOrders B self =
     (let self1 = emit (Call get_orders)
            (self\<lparr>options := (options self)\<lparr>allOrders := orders_reply B (length (events self))\<rparr>\<rparr>)
      in case data self1 of
           None \<Rightarrow> Raised AttributeError self1
         | Some d \<Rightarrow>
             Returned () (emit (Call (get_orders_for (stock d)))
               (self1\<lparr>options := (options self1)
                  \<lparr>orders := orders_for_reply B (length (events self1)) (stock d)\<rparr>\<rparr>)))"

definition setPosition :: "broker \<Rightarrow> AutomatedTrader \<Rightarrow> unit result" where
  \<comment> \<open>any exception inside the \<^verbatim>\<open>try\<close> leaves \<^verbatim>\<open>positions\<close> at \<^verbatim>\<open>None\<close>\<close>
  "setPosition B self =
     (case data self of
        None \<Rightarrow> Returned () (self\<lparr>options := (options self)\<lparr>positions := None\<rparr>\<rparr>)
      | Some d \<Rightarrow>
          Returned () (emit (Call (get_open_position (stock d)))
            (self\<lparr>options := (options self)
               \<lparr>positions := position_reply B (length (events self)) (stock d)\<rparr>\<rparr>)))"

definition setBalance :: "broker \<Rightarrow> AutomatedTrader \<Rightarrow> unit result" where
  "setBalance B self =
     Returned () (emit (Call get_account)
       (self\<lparr>options := (options self)\<lparr>balance := cash_reply B (length (events self))\<rparr>\<rparr>))"

section \<open>Cancelling and building orders\<close>

text \<open>
  A log line of the source is an f-string; several of them read \<^verbatim>\<open>self.data\<close> or
  \<^verbatim>\<open>self.order_data\<close>, and raise an AttributeError when the attribute was never
  assigned.
\<close>

fun cancel_each :: "Order list \<Rightarrow> AutomatedTrader \<Rightarrow> unit result" where
  \<comment> \<open>the \<^verbatim>\<open>for\<close> loop of \<^verbatim>\<open>cancelOrderById\<close> over the open orders of the symbol\<close>
  "cancel_each [] self = Returned () self"
| "cancel_each (x # xs) self =
     (let self1 = client_cancel_order_by_id (id_hex x) self
      in if data self1 = None then Raised AttributeError self1
         else cancel_each xs (log INFO (CanceledOrderFor (id_hex x)) self1))"

definition cancelOrderById :: "string option \<Rightarrow> AutomatedTrader \<Rightarrow> unit result" where
  "cancelOrderById i self =
     (if \<not> enabled (options self) then
        (if data self = None then Raised AttributeError self
         else Returned () (log DEBUG NotEnabledNotCanceled self))
      else case i of
             Some h \<Rightarrow> Returned () (client_cancel_order_by_id h self)
           | None \<Rightarrow> cancel_each (orders (options self)) self)"

definition orderType :: "rat \<Rightarrow> OrderSide \<Rightarrow> bool \<Rightarrow> AutomatedTrader \<Rightarrow> unit result" where
  "orderType amount sd lmt self =
     (case data self of
        None \<Rightarrow> Raised AttributeError self
      | Some d \<Rightarrow>
          if \<not> lmt then
            Returned () (self\<lparr>order_data := Some (MarketOrderRequest (stock d) amount sd GTC)\<rparr>)
          else
            (let self1 =
                   (if fl (limitThreshold (options self)) < fl (price d)
                    then self\<lparr>options := (options self)
                           \<lparr>limitamt := fmul (price d) (limitPerc (options self))\<rparr>\<rparr>
                    else self)
             in Returned () (self1\<lparr>order_data :=
                  Some (LimitOrderRequest (stock d)
                          (py_round (fadd (price d)
                             (if sd = BUY then limitamt (options self1)
                              else - limitamt (options self1))) 2)
                          amount sd GTC)\<rparr>)))"

section \<open>Watching an order: verifyOrder\<close>

definition is_open :: "Order \<Rightarrow> bool" where
  "is_open ord = (filled_at ord = None \<and> failed_at ord = None \<and> canceled_at ord = None)"

definition can_report :: "AutomatedTrader \<Rightarrow> bool" where
  \<comment> \<open>the log lines of \<^verbatim>\<open>verifyOrder\<close> read \<^verbatim>\<open>self.data\<close> and \<^verbatim>\<open>self.order_data.qty\<close>\<close>
  "can_report self = (data self \<noteq> None \<and> order_data self \<noteq> None)"

definition report :: "level \<Rightarrow> logmsg \<Rightarrow> bool \<Rightarrow> AutomatedTrader \<Rightarrow> bool result" where
  \<comment> \<open>log such a line, then return \<open>b\<close>\<close>
  "report l m b self =
     (if can_report self then Returned b (log l m self) else Raised AttributeError self)"

definition after_loop :: "Order \<Rightarrow> AutomatedTrader \<Rightarrow> bool result" where
  \<comment> \<open>the three tests after the \<^verbatim>\<open>while\<close>; falling off the end returns \<^verbatim>\<open>None\<close>, which is falsy\<close>
  "after_loop ord self =
     (if canceled_at ord \<noteq> None then report DEBUG OrderCanceled True self
      else if failed_at ord \<noteq> None then report WARNING OrderFailed False self
      else if filled_at ord \<noteq> None then report INFO OrderFilled True self
      else Returned False self)"

definition sleep_and_poll :: "broker \<Rightarrow> string \<Rightarrow> AutomatedTrader \<Rightarrow> Order \<times> AutomatedTrader" where
  \<comment> \<open>the end of the loop body: \<^verbatim>\<open>time.sleep(1)\<close>, then the order is fetched again\<close>
  "sleep_and_poll B cid self = client_get_order_by_client_id B cid (emit Sleep self)"

text \<open>
  The locals that the loop only reads: \<^verbatim>\<open>maxTime\<close>, \<^verbatim>\<open>totalMaxTime\<close>, the two side
  flags, \<^verbatim>\<open>now\<close> and \<^verbatim>\<open>id\<close>.
\<close>

record verify_locals =
  l_maxTime :: rat
  l_totalMaxTime :: rat
  l_orderSideBuy :: bool
  l_orderSideSell :: bool
  l_now :: rat
  l_id :: string

definition timeout_policy :: "string \<Rightarrow> Options \<Rightarrow> verify_locals \<Rightarrow> bool" where
  \<comment> \<open>the policy \<open>p\<close> is the one configured for the side of the order\<close>
  "timeout_policy p opts L =
     ((buyTimeout opts = p \<and> l_orderSideBuy L) \<or> (sellTimeout opts = p \<and> l_orderSideSell L))"

definition elapsed :: "verify_locals \<Rightarrow> rat \<Rightarrow> rat" where
  \<comment> \<open>\<^verbatim>\<open>time.time() - now\<close>, for the reading \<open>t\<close> of the clock\<close>
  "elapsed L t = fsub t (l_now L)"

definition cancel_and_refresh ::
  "broker \<Rightarrow> verify_locals \<Rightarrow> Order \<Rightarrow> AutomatedTrader \<Rightarrow> Order result" where
  \<comment> \<open>the first two lines of both policies: the order is cancelled by its id and fetched
      again by its client id\<close>
  "cancel_and_refresh B L ord self =
     (case cancelOrderById (Some (id_hex ord)) self of
        OutOfFuel \<Rightarrow> OutOfFuel
      | Raised e self1 \<Rightarrow> Raised e self1
      | Returned u self1 \<Rightarrow>
          (case client_get_order_by_client_id B (l_id L) self1 of
             (ord1, self2) \<Rightarrow> Returned ord1 self2))"

text \<open>
  \<open>verifyOrder\<close> is the method, \<open>verify_loop\<close> its \<^verbatim>\<open>while\<close> loop, with the locals
  \<^verbatim>\<open>order\<close> and \<^verbatim>\<open>timeout\<close> that the loop assigns.  Each call and each turn of the
  loop takes one unit of fuel.
\<close>

fun verifyOrder :: "broker \<Rightarrow> nat \<Rightarrow> Order \<Rightarrow> bool \<Rightarrow> AutomatedTrader \<Rightarrow> bool result"
and verify_loop ::
  "broker \<Rightarrow> nat \<Rightarrow> verify_locals \<Rightarrow> Order \<Rightarrow> bool \<Rightarrow> AutomatedTrader \<Rightarrow> bool result" where
  "verifyOrder B 0 ord timeout self = OutOfFuel"
| "verifyOrder B (Suc n) ord timeout self =
     (case time_time B self of
        (t, self1) \<Rightarrow>
          verify_loop B n
            \<lparr>l_maxTime = maxTime (options self), l_totalMaxTime = totalMaxTime (options self),
             l_orderSideBuy = (side ord = BUY), l_orderSideSell = (side ord = SELL),
             l_now = t, l_id = client_order_id ord\<rparr>
            ord timeout self1)"
| "verify_loop B 0 L ord timeout self = OutOfFuel"
| "verify_loop B (Suc n) L ord timeout self =
     (if \<not> is_open ord then after_loop ord self
      else case time_time B self of
        (t1, self1) \<Rightarrow>
          if fl (l_maxTime L) < elapsed L t1 \<and> \<not> timeout then
            (if \<not> can_report self1 then Raised AttributeError self1
             else
               (let self2 = log DEBUG ExceededMaxTime self1 in
                if timeout_policy ''Cancel'' (options self2) L then
                  (case cancel_and_refresh B L ord self2 of
                     OutOfFuel \<Rightarrow> OutOfFuel
                   | Raised e self3 \<Rightarrow> Raised e self3
                   | Returned ord1 self3 \<Rightarrow>
                       (case verifyOrder B n ord1 True self3 of
                          OutOfFuel \<Rightarrow> OutOfFuel
                        | Raised e self4 \<Rightarrow> Raised e self4
                        | Returned ok self4 \<Rightarrow>
                            if \<not> ok \<and> \<not> can_report self4 then Raised AttributeError self4
                            else
                              (case sleep_and_poll B (l_id L)
                                      (if \<not> ok then log DEBUG OrderCancelFailed self4
                                       else self4) of
                                 (ord2, self5) \<Rightarrow> verify_loop B n L ord2 True self5)))
                else if timeout_policy ''Market'' (options self2) L then
                  (case cancel_and_refresh B L ord self2 of
                     OutOfFuel \<Rightarrow> OutOfFuel
                   | Raised e self3 \<Rightarrow> Raised e self3
                   | Returned ord1 self3 \<Rightarrow>
                       (case verifyOrder B n ord1 True self3 of
                          OutOfFuel \<Rightarrow> OutOfFuel
                        | Raised e self4 \<Rightarrow> Raised e self4
                        | Returned ok self4 \<Rightarrow>
                            if ok then
                              (case orderType (fsub (qty ord1) (filled_qty ord1)) (side ord1)
                                      False self4 of
                                 OutOfFuel \<Rightarrow> OutOfFuel
                               | Raised e self5 \<Rightarrow> Raised e self5
                               | Returned u self5 \<Rightarrow>
                                   (case order_data self5 of
                                      None \<Rightarrow> Raised AttributeError self5
                                    | Some od \<Rightarrow>
                                        (case client_submit_order B od self5 of
                                           (ord2, self6) \<Rightarrow>
                                             (case verifyOrder B n ord2 True self6 of
                                                OutOfFuel \<Rightarrow> OutOfFuel
                                              | Raised e self7 \<Rightarrow> Raised e self7
                                              | Returned ok2 self7 \<Rightarrow>
                                                  if \<not> can_report self7
                                                  then Raised AttributeError self7
                                                  else
                                                    (case sleep_and_poll B (l_id L)
                                                       (log DEBUG
                                                          (if ok2 then TimeoutMarketSucceeded
                                                           else TimeoutMarketFailed) self7) of
                                                       (ord3, self8) \<Rightarrow>
                                                         verify_loop B n L ord3 True self8)))))
                            else if can_report self4 then
                              Raised CancelOrderFailed (log DEBUG OrderCancelFailed self4)
                            else Raised AttributeError self4))
                else Raised TimeoutSettingNotFound (log ERROR TimeoutSettingMissing self2)))
          else
            (case time_time B self1 of
               (t2, self2) \<Rightarrow>
                 if fl (l_totalMaxTime L) < elapsed L t2 then
                   (case cancelOrderById (Some (id_hex ord)) self2 of
                      OutOfFuel \<Rightarrow> OutOfFuel
                    | Raised e self3 \<Rightarrow> Raised e self3
                    | Returned u self3 \<Rightarrow> report WARNING ExceededTotalMaxTime True self3)
                 else
                   (case sleep_and_poll B (l_id L) self2 of
                      (ord1, self3) \<Rightarrow> verify_loop B n L ord1 timeout self3)))"

section \<open>Submitting: submitOrder\<close>

definition submitOrder :: "broker \<Rightarrow> nat \<Rightarrow> AutomatedTrader \<Rightarrow> unit result" where
  "submitOrder B fuel self =
     (case order_data self of
        None \<Rightarrow> Returned () self
      | Some od \<Rightarrow>
          if \<not> enabled (options self) then
            (if data self = None then Raised AttributeError self
             else Returned () (log DEBUG NotEnabledNotPlaced self))
          else
            (case client_submit_order B od self of
               (ord, self1) \<Rightarrow>
                 and_then (verifyOrder B fuel ord False (self1\<lparr>order := Some ord\<rparr>))
                   (Returned ())))"

section \<open>Sizing: createOrder\<close>

text \<open>
  The \<^verbatim>\<open>if\<close>/\<^verbatim>\<open>elif\<close> chain of \<^verbatim>\<open>createOrder\<close> on the action and the position
  text.  It ends in a \<^verbatim>\<open>return\<close> inside a branch (\<open>Stop\<close>, with the side the branch
  had assigned), or goes on to the checks below the chain with the local \<^verbatim>\<open>amount\<close> and
  the local \<^verbatim>\<open>side\<close>, which is unbound (\<open>None\<close>) when the last \<^verbatim>\<open>else\<close> was taken.
\<close>

datatype sizing = Stop OrderSide | Continue "OrderSide option" rat

definition sizeOrder ::
  "data \<Rightarrow> Options \<Rightarrow> rat \<Rightarrow> rat \<Rightarrow> AutomatedTrader \<Rightarrow> sizing \<times> AutomatedTrader" where
  "sizeOrder d opts amount posQty self =
     (if action d = ''Open'' \<and> position d = Some ''Short'' then
        (if posQty < 0 then (Stop SELL, log DEBUG AlreadyShorted self)
         else if \<not> short opts \<and> posQty = 0 then
           (Continue (Some SELL) 0, log INFO ShortingNotEnabled self)
         else if \<not> short opts \<and> 0 < posQty then
           (Continue (Some SELL) posQty, log INFO SellingAllPositions self)
         else if short opts \<and> 0 < posQty then (Continue (Some SELL) posQty, self)
         else if short opts \<and> posQty = 0 then (Continue (Some SELL) amount, self)
         else if short opts \<and> posQty < 0 then (Stop SELL, log INFO AlreadyShorted self)
         else (Continue (Some SELL) amount, self))
      else if action d = ''Close'' \<and> position d = Some ''Short'' then
        (if 0 < posQty then (Stop BUY, log DEBUG ShortNotNeeded self)
         else if posQty = 0 then (Continue (Some BUY) amount, self)
         else if posQty < 0 then (Continue (Some BUY) \<bar>posQty\<bar>, self)
         else (Continue (Some BUY) amount, self))
      else if (action d = ''Bull'' \<or> action d = ''buy'' \<or> action d = ''Open'') \<and>
              (position d = Some ''Long'' \<or> position d = None) then
        (if positions opts \<noteq> None then (Continue (Some BUY) 0, self)
         else (Continue (Some BUY) amount, self))
      else if (action d = ''Bear'' \<or> action d = ''sell'' \<or> action d = ''Close'') \<and>
              (position d = Some ''Long'' \<or> position d = None) then
        (if positions opts \<noteq> None \<and> 0 < posQty then (Continue (Some SELL) (0 + posQty), self)
         else (Continue (Some SELL) 0, self))
      else (Continue None amount, log ERROR UnhandledOrder self))"

definition clear_orders :: "AutomatedTrader \<Rightarrow> unit result" where
  \<comment> \<open>open orders for the symbol are cancelled first\<close>
  "clear_orders self =
     (if 0 < length (orders (options self)) then cancelOrderById None self
      else Returned () self)"

definition set_sizing_balance :: "AutomatedTrader \<Rightarrow> AutomatedTrader" where
  "set_sizing_balance self =
     (if testMode (options self) then self\<lparr>options := (options self)\<lparr>balance := 100000\<rparr>\<rparr>
      else if balance (options self) < 0 then
        (log WARNING NegativeBalance self)\<lparr>options := (options self)\<lparr>balance := 0\<rparr>\<rparr>
      else self)"

text \<open>
  \<^verbatim>\<open>createOrder\<close> up to its last two lines: either the method is over (it returned
  or raised), or an order of \<open>amount\<close> on \<open>side\<close> is to be placed.
\<close>

datatype decided = Done "unit result" | Place rat OrderSide AutomatedTrader

definition sized_amount :: "Options \<Rightarrow> data \<Rightarrow> rat" where
  \<comment> \<open>shares to buy in whole numbers\<close>
  "sized_amount opts d = of_int (py_int (fdiv (fmul (balance opts) (buyPerc opts)) (price d)))"

definition position_quantity :: "Options \<Rightarrow> rat" where
  "position_quantity opts =
     (case positions opts of Some p \<Rightarrow> position_qty p | None \<Rightarrow> 0)"

definition createOrder_decide :: "AutomatedTrader \<Rightarrow> decided" where
  "createOrder_decide self =
     (case clear_orders self of
        OutOfFuel \<Rightarrow> Done OutOfFuel
      | Raised e self0 \<Rightarrow> Done (Raised e self0)
      | Returned u self0 \<Rightarrow>
          (let self1 = set_sizing_balance self0 in
           case data self1 of
             None \<Rightarrow> Done (Raised AttributeError self1)
           | Some d \<Rightarrow>
               if fl (price d) = 0 then Done (Raised ZeroDivisionError self1)
               else
                 (case sizeOrder d (options self1) (sized_amount (options self1) d)
                         (position_quantity (options self1)) self1 of
                    (Stop sd, self2) \<Rightarrow> Done (Returned () self2)
                  | (Continue sd amount, self2) \<Rightarrow>
                      if amount = 0 then
                        Done (Returned () (log INFO ZeroOrdersRequested self2))
                      else if amount < 0 then
                        Done (Returned () (log INFO NegativeOrdersRequested self2))
                      else
                        (case sd of
                           None \<Rightarrow> Done (Raised UnboundLocalError self2)
                         | Some sd' \<Rightarrow> Place amount sd' self2))))"

definition createOrder :: "broker \<Rightarrow> nat \<Rightarrow> AutomatedTrader \<Rightarrow> unit result" where
  "createOrder B fuel self =
     (case createOrder_decide self of
        Done r \<Rightarrow> r
      | Place amount sd self2 \<Rightarrow>
          and_then (orderType amount sd (limit (options self2)) self2) (submitOrder B fuel))"

section \<open>The constructor and the request handler\<close>

text \<open>
  \<^verbatim>\<open>newOptions\<close> is a dictionary of overrides; an entry is one of the option keys with
  its value, or some other key (\<open>New_other\<close>), which makes the dictionary grow and the
  constructor raise.
\<close>

datatype new_option =
    New_short bool
  | New_buyPerc rat
  | New_balance rat
  | New_positions "Position option"
  | New_orders "Order list"
  | New_allOrders "Order list"
  | New_testMode bool
  | New_enabled bool
  | New_limit bool
  | New_limitamt rat
  | New_limitThreshold rat
  | New_limitPerc rat
  | New_maxTime rat
  | New_totalMaxTime rat
  | New_buyTimeout string
  | New_sellTimeout string
  | New_other string

fun update_option :: "Options \<Rightarrow> new_option \<Rightarrow> Options" where
  "update_option opts (New_short v) = opts\<lparr>short := v\<rparr>"
| "update_option opts (New_buyPerc v) = opts\<lparr>buyPerc := v\<rparr>"
| "update_option opts (New_balance v) = opts\<lparr>balance := v\<rparr>"
| "update_option opts (New_positions v) = opts\<lparr>positions := v\<rparr>"
| "update_option opts (New_orders v) = opts\<lparr>orders := v\<rparr>"
| "update_option opts (New_allOrders v) = opts\<lparr>allOrders := v\<rparr>"
| "update_option opts (New_testMode v) = opts\<lparr>testMode := v\<rparr>"
| "update_option opts (New_enabled v) = opts\<lparr>enabled := v\<rparr>"
| "update_option opts (New_limit v) = opts\<lparr>limit := v\<rparr>"
| "update_option opts (New_limitamt v) = opts\<lparr>limitamt := v\<rparr>"
| "update_option opts (New_limitThreshold v) = opts\<lparr>limitThreshold := v\<rparr>"
| "update_option opts (New_limitPerc v) = opts\<lparr>limitPerc := v\<rparr>"
| "update_option opts (New_maxTime v) = opts\<lparr>maxTime := v\<rparr>"
| "update_option opts (New_totalMaxTime v) = opts\<lparr>totalMaxTime := v\<rparr>"
| "update_option opts (New_buyTimeout v) = opts\<lparr>buyTimeout := v\<rparr>"
| "update_option opts (New_sellTimeout v) = opts\<lparr>sellTimeout := v\<rparr>"
| "update_option opts (New_other k) = opts"

fun is_other :: "new_option \<Rightarrow> bool" where
  "is_other (New_other k) = True"
| "is_other v = False"

text \<open>
  \<open>init\<close> is \<^verbatim>\<open>__init__\<close>.  Its first argument after the broker and the fuel is the
  module's \<^verbatim>\<open>settings\<close> dictionary, which \<^verbatim>\<open>self.options\<close> is bound to (the dictionary
  is not empty, so the built-in defaults are not used), and the trace so far.
\<close>

definition init ::
  "broker \<Rightarrow> nat \<Rightarrow> Options \<Rightarrow> event list \<Rightarrow> string \<Rightarrow> string \<Rightarrow> bool \<Rightarrow> string \<Rightarrow>
   new_option list \<Rightarrow> unit result" where
  "init B fuel settings evs key secret ppr rq newOptions =
     (let self = \<lparr>options = foldl update_option settings newOptions,
                  api_key = key, secret_key = secret, paper = ppr, req = rq,
                  data = None, order_data = None, order = None, events = evs\<rparr>
      in if list_ex is_other newOptions then Raised ExtraOptions self
         else if enabled (options self) \<and> testMode (options self) \<and> \<not> paper self then
           Raised ConfigConflict (log ERROR ConfigConflictMsg self)
         else if enabled (options self) then
           and_then (and_then (and_then (and_then (setData self) (setOrders B))
             (setPosition B)) (setBalance B)) (createOrder B fuel)
         else Returned () self)"

definition getKeys :: "string \<Rightarrow> error + bool" where
  \<comment> \<open>the \<^verbatim>\<open>paper\<close> entry of the account chosen by \<^verbatim>\<open>options["using"]\<close>\<close>
  "getKeys using =
     (if using = ''paperTrading'' then Inr True
      else if using = ''realTrading'' then Inr False
      else Inl NameError)"

text \<open>
  \<open>respond\<close> is the handler of a POST: it builds one \<open>AutomatedTrader\<close> from the text
  of the request.  The module's \<^verbatim>\<open>settings\<close> and the trace are what one request leaves
  to the next; an exception of the constructor is the server's status 500.
\<close>

definition respond ::
  "broker \<Rightarrow> nat \<Rightarrow> bool \<Rightarrow> Options \<times> event list \<Rightarrow> string \<Rightarrow>
   (nat \<times> Options \<times> event list) option" where
  "respond B fuel ppr st req_data =
     (case init B fuel (fst st) (snd st @ [Log INFO ReceivedRequest]) [] [] ppr req_data [] of
        Returned u self \<Rightarrow> Some (200, options self, events self)
      | Raised e self \<Rightarrow> Some (500, options self, events self)
      | OutOfFuel \<Rightarrow> None)"

section \<open>Traces and example environments\<close>

fun is_call :: "event \<Rightarrow> bool" where
  "is_call (Call c) = True"
| "is_call e = False"

definition calls :: "event list \<Rightarrow> event list" where
  \<comment> \<open>the broker calls of a trace, in order\<close>
  "calls evs = filter is_call evs"

text \<open>
  Settings with the values of the defaults written in \<^verbatim>\<open>__init__\<close>, and values for the
  three keys the defaults lack.  A decimal literal of the source is the double nearest to
  it: \<open>fl (1 / 5)\<close> is Python's \<^verbatim>\<open>0.2\<close>.
\<close>

definition example_settings :: Options where
  "example_settings =
     \<lparr>short = False, buyPerc = fl (1 / 5), balance = 0, positions = None, orders = [],
      allOrders = [], testMode = True, enabled = True, limit = True, limitamt = fl (1 / 25),
      limitThreshold = 100, limitPerc = fl (1 / 2000), maxTime = 10, totalMaxTime = 30,
      buyTimeout = ''Cancel'', sellTimeout = ''Market''\<rparr>"

definition example_order :: "OrderSide \<Rightarrow> rat \<Rightarrow> Order" where
  \<comment> \<open>an open order\<close>
  "example_order sd q =
     \<lparr>id_hex = ''0a1b'', client_order_id = ''c-1'', side = sd, qty = q, filled_qty = 0,
      filled_at = None, failed_at = None, canceled_at = None\<rparr>"

text \<open>
  A broker with no open order and no position, a cash balance of 100000, and every
  order filled at once; the clock advances by one second per event.
\<close>

definition filling_broker :: broker where
  "filling_broker =
     \<lparr>orders_reply = (\<lambda>n. []),
      orders_for_reply = (\<lambda>n s. []),
      position_reply = (\<lambda>n s. None),
      cash_reply = (\<lambda>n. 100000),
      submit_reply = (\<lambda>n r. (example_order (req_side r) (req_qty r))
                               \<lparr>filled_qty := req_qty r, filled_at := Some n\<rparr>),
      order_reply = (\<lambda>n c. (example_order BUY 1)\<lparr>filled_qty := 1, filled_at := Some n\<rparr>),
      time_reply = (\<lambda>n. of_nat n)\<rparr>"

definition outcome :: "'a result \<Rightarrow> (error option \<times> event list) option" where
  \<comment> \<open>the exception, if any, and the trace at the end\<close>
  "outcome r =
     (case r of
        Returned v self \<Rightarrow> Some (None, events self)
      | Raised e self \<Rightarrow> Some (Some e, events self)
      | OutOfFuel \<Rightarrow> None)"


fun submitted :: "event list \<Rightarrow> order_request list" where
  \<comment> \<open>the requests handed to \<^verbatim>\<open>submit_order\<close>, in order\<close>
  "submitted [] = []"
| "submitted (Call (submit_order r) # es) = r # submitted es"
| "submitted (e # es) = submitted es"


definition watching_trader :: "Options \<Rightarrow> AutomatedTrader" where
  \<comment> \<open>an object that has parsed the MSFT alert and built a request for ten shares\<close>
  "watching_trader opts =
     \<lparr>options = opts, api_key = [], secret_key = [], paper = True, req = [],
      data = Some \<lparr>action = ''buy'', position = None, stock = ''MSFT'',
                   price = fl (33757 / 100)\<rparr>,
      order_data = Some (LimitOrderRequest ''MSFT'' (fl (16887 / 50)) 10 BUY GTC),
      order = None, events = []\<rparr>"

definition bytes_repr :: "string \<Rightarrow> string" where
  \<comment> \<open>\<^verbatim>\<open>str(request.data)\<close> for a body of plain characters: the text of a bytes literal\<close>
  "bytes_repr body = ''b'' @ [CHR 0x27] @ body @ [CHR 0x27]"

definition respond_twice ::
  "broker \<Rightarrow> nat \<Rightarrow> bool \<Rightarrow> Options \<times> event list \<Rightarrow> string \<Rightarrow> string \<Rightarrow>
   (nat \<times> Options \<times> event list) option" where
  \<comment> \<open>two requests served one after the other by the same process\<close>
  "respond_twice B fuel ppr st r1 r2 =
     (case respond B fuel ppr st r1 of
        None \<Rightarrow> None
      | Some (code, st1) \<Rightarrow> respond B fuel ppr st1 r2)"

definition limitamt_and_orders ::
  "(nat \<times> Options \<times> event list) option \<Rightarrow> (rat \<times> order_request list) option" where
  "limitamt_and_orders r = map_option (\<lambda>(code, opts, evs). (limitamt opts, submitted evs)) r"


definition cash_settings :: Options where
  \<comment> \<open>test mode off, a cash balance of 100000 already read\<close>
  "cash_settings = example_settings\<lparr>testMode := False, balance := 100000\<rparr>"

definition fractional_broker :: broker where
  \<comment> \<open>as \<open>filling_broker\<close>, with half a share held\<close>
  "fractional_broker =
     filling_broker\<lparr>position_reply := (\<lambda>n s. Some \<lparr>position_qty = 1 / 2\<rparr>)\<rparr>"

definition dry_settings :: Options where
  \<comment> \<open>trading disabled\<close>
  "dry_settings = example_settings\<lparr>enabled := False\<rparr>"

section \<open>What the specification says, for comparison\<close>




definition effective_balance :: "Options \<Rightarrow> rat" where
  \<comment> \<open>the balance that sizes an order: the fixed one in test mode, else the cash, zero
      when negative\<close>
  "effective_balance opts =
     (if testMode opts then 100000 else if balance opts < 0 then 0 else balance opts)"

definition float_quotient :: "Options \<Rightarrow> data \<Rightarrow> rat" where
  \<comment> \<open>\<^verbatim>\<open>effectiveBalance * buyPerc / price\<close> as Python computes it: the product rounded
      to a double, then the quotient\<close>
  "float_quotient opts d = fdiv (fmul (effective_balance opts) (buyPerc opts)) (price d)"

definition exact_quotient :: "Options \<Rightarrow> data \<Rightarrow> rat" where
  \<comment> \<open>the same expression in exact arithmetic, on the doubles it is given\<close>
  "exact_quotient opts d = fl (effective_balance opts) * fl (buyPerc opts) / fl (price d)"

definition cash_sized :: "data \<Rightarrow> Options \<Rightarrow> bool" where
  \<comment> \<open>the entries that the table sizes from cash: a long entry with no position held, and
      a short entry with shorting enabled and a flat position\<close>
  "cash_sized d opts =
     (((action d = ''Bull'' \<or> action d = ''buy'' \<or> action d = ''Open'') \<and>
       (position d = Some ''Long'' \<or> position d = None) \<and> positions opts = None) \<or>
      (action d = ''Open'' \<and> position d = Some ''Short'' \<and> short opts \<and>
       position_quantity opts = 0))"

definition flatten_or_cover :: "data \<Rightarrow> Options \<Rightarrow> bool" where
  \<comment> \<open>the decisions that close a position: selling a long one on a short entry or on a
      long exit, and buying back a short one\<close>
  "flatten_or_cover d opts =
     ((action d = ''Open'' \<and> position d = Some ''Short'' \<and> 0 < position_quantity opts) \<or>
      (action d = ''Close'' \<and> position d = Some ''Short'' \<and> position_quantity opts < 0) \<or>
      ((action d = ''Bear'' \<or> action d = ''sell'' \<or> action d = ''Close'') \<and>
       (position d = Some ''Long'' \<or> position d = None) \<and> 0 < position_quantity opts))"

definition closing_side :: "data \<Rightarrow> OrderSide" where
  "closing_side d =
     (if action d = ''Close'' \<and> position d = Some ''Short'' then BUY else SELL)"

definition entry_side :: "data \<Rightarrow> OrderSide" where
  "entry_side d = (if position d = Some ''Short'' then SELL else BUY)"

definition is_whole :: "rat \<Rightarrow> bool" where
  "is_whole q = (of_int \<lfloor>q\<rfloor> = q)"

definition placed :: "decided \<Rightarrow> (rat \<times> OrderSide) option" where
  \<comment> \<open>the quantity and side handed to \<^verbatim>\<open>orderType\<close>, if any\<close>
  "placed r = (case r of Place q sd self \<Rightarrow> Some (q, sd) | Done r \<Rightarrow> None)"

text \<open>
  Section 4.2 of the specification: the canonical actions and position hints, and the
  decision table, its rows in their order of precedence.  \<open>q\<close> is the current
  position quantity, \<open>cash\<close> the cash-sized quantity.
\<close>

datatype spec_action = Open | Close | Bull | Bear | Buy | Sell

datatype spec_hint = Long | Short

datatype intent = Intent OrderSide rat | UnhandledSignal

definition spec_table :: "spec_action \<Rightarrow> spec_hint option \<Rightarrow> bool \<Rightarrow> rat \<Rightarrow> rat \<Rightarrow> intent" where
  "spec_table a h shorting q cash =
     (if a = Open \<and> h = Some Short \<and> \<not> shorting \<and> q = 0 then Intent SELL 0
      else if a = Open \<and> h = Some Short \<and> \<not> shorting \<and> 0 < q then Intent SELL q
      else if a = Open \<and> h = Some Short \<and> shorting \<and> 0 < q then Intent SELL q
      else if a = Open \<and> h = Some Short \<and> shorting \<and> q = 0 then Intent SELL cash
      else if a = Open \<and> h = Some Short \<and> q < 0 then Intent SELL 0
      else if a = Close \<and> h = Some Short \<and> 0 < q then Intent BUY 0
      else if a = Close \<and> h = Some Short \<and> q = 0 then Intent BUY 0
      else if a = Close \<and> h = Some Short \<and> q < 0 then Intent BUY \<bar>q\<bar>
      else if (a = Bull \<or> a = Buy \<or> a = Open) \<and> (h = Some Long \<or> h = None) \<and> q = 0
        then Intent BUY cash
      else if (a = Bull \<or> a = Buy \<or> a = Open) \<and> (h = Some Long \<or> h = None) \<and> q \<noteq> 0
        then Intent BUY 0
      else if (a = Bear \<or> a = Sell \<or> a = Close) \<and> (h = Some Long \<or> h = None) \<and> 0 < q
        then Intent SELL q
      else if (a = Bear \<or> a = Sell \<or> a = Close) \<and> (h = Some Long \<or> h = None) \<and> q \<le> 0
        then Intent SELL 0
      else UnhandledSignal)"

text \<open>
  Two readings of the captured texts: after case-insensitive normalisation, and as the
  exact texts that \<^verbatim>\<open>createOrder\<close> compares with.
\<close>

definition word_action :: "string \<Rightarrow> spec_action option" where
  "word_action w =
     (if w = ''open'' then Some Open else if w = ''close'' then Some Close
      else if w = ''bull'' then Some Bull else if w = ''bear'' then Some Bear
      else if w = ''buy'' then Some Buy else if w = ''sell'' then Some Sell
      else None)"

definition canonical_action :: "string \<Rightarrow> spec_action option" where
  "canonical_action s = word_action (map lower s)"

definition canonical_hint :: "string option \<Rightarrow> spec_hint option option" where
  "canonical_hint p =
     (case p of
        None \<Rightarrow> Some None
      | Some s \<Rightarrow>
          if map lower s = ''long'' then Some (Some Long)
          else if map lower s = ''short'' then Some (Some Short)
          else None)"

definition exact_action :: "string \<Rightarrow> spec_action option" where
  "exact_action s =
     (if s = ''Open'' then Some Open else if s = ''Close'' then Some Close
      else if s = ''Bull'' then Some Bull else if s = ''Bear'' then Some Bear
      else if s = ''buy'' then Some Buy else if s = ''sell'' then Some Sell
      else None)"

definition exact_hint :: "string option \<Rightarrow> spec_hint option option" where
  "exact_hint p =
     (case p of
        None \<Rightarrow> Some None
      | Some s \<Rightarrow>
          if s = ''Long'' then Some (Some Long)
          else if s = ''Short'' then Some (Some Short)
          else None)"

definition table_for ::
  "spec_action option \<Rightarrow> spec_hint option option \<Rightarrow> bool \<Rightarrow> rat \<Rightarrow> rat \<Rightarrow> intent" where
  "table_for a h shorting q cash =
     (case (a, h) of
        (Some a', Some h') \<Rightarrow> spec_table a' h' shorting q cash
      | _ \<Rightarrow> UnhandledSignal)"

text \<open>The decision of the chain in \<^verbatim>\<open>createOrder\<close>, read as an entry of the table.\<close>

fun intent_of :: "sizing \<Rightarrow> intent" where
  "intent_of (Stop sd) = Intent sd 0"
| "intent_of (Continue (Some sd) amount) = Intent sd amount"
| "intent_of (Continue None amount) = UnhandledSignal"

definition decision :: "data \<Rightarrow> Options \<Rightarrow> rat \<Rightarrow> AutomatedTrader \<Rightarrow> intent" where
  "decision d opts cash self =
     intent_of (fst (sizeOrder d opts cash (position_quantity opts) self))"

definition claimed_decision :: "data \<Rightarrow> Options \<Rightarrow> rat \<Rightarrow> intent" where
  "claimed_decision d opts cash =
     table_for (canonical_action (action d)) (canonical_hint (position d))
       (short opts) (position_quantity opts) cash"

text \<open>Settings whose fail-safe time is below the per-order time.\<close>

definition failsafe_settings :: Options where
  "failsafe_settings = example_settings\<lparr>maxTime := 10, totalMaxTime := 5\<rparr>"

text \<open>
  A broker whose first poll answers after twelve seconds: the clock reads 0 up to the
  fifth event and 12 from then on; the order is open at first and cancelled afterwards.
\<close>

definition stalling_broker :: broker where
  "stalling_broker =
     filling_broker
       \<lparr>order_reply := (\<lambda>n c. if n < 5 then example_order BUY 10
                              else (example_order BUY 10)\<lparr>canceled_at := Some n\<rparr>),
        time_reply := (\<lambda>n. if n < 5 then 0 else 12)\<rparr>"

text \<open>A clock that reads seven seconds throughout.\<close>

definition late_broker :: broker where
  "late_broker = filling_broker\<lparr>time_reply := (\<lambda>n. 7)\<rparr>"

definition example_locals :: verify_locals where
  "example_locals =
     \<lparr>l_maxTime = 10, l_totalMaxTime = 5, l_orderSideBuy = True, l_orderSideSell = False,
      l_now = 0, l_id = ''c-1''\<rparr>"

text \<open>A broker that never ends the order; the clock advances by one second per event.\<close>

definition idle_broker :: broker where
  "idle_broker = filling_broker\<lparr>order_reply := (\<lambda>n c. example_order BUY 10)\<rparr>"

section \<open>Reading the trace of a supervision\<close>

text \<open>
  \<open>latest_report B cid k evs ord\<close> is the broker's latest report on the order with
  client id \<open>cid\<close> after the events \<open>evs\<close>, which start at index \<open>k\<close> of the trace:
  the answer to the last \<^verbatim>\<open>get_order_by_client_id\<close> among them, or \<open>ord\<close> when there is
  none.  \<open>verdict\<close> is the result and the log line that \<^verbatim>\<open>verifyOrder\<close> gives for an
  order that has ended.
\<close>

fun latest_report :: "broker \<Rightarrow> string \<Rightarrow> nat \<Rightarrow> event list \<Rightarrow> Order \<Rightarrow> Order" where
  "latest_report B cid k [] ord = ord"
| "latest_report B cid k (e # es) ord =
     latest_report B cid (Suc k) es
       (if e = Call (get_order_by_client_id cid) then order_reply B k cid else ord)"

definition verdict :: "Order \<Rightarrow> bool \<times> event" where
  "verdict ord =
     (if canceled_at ord \<noteq> None then (True, Log DEBUG OrderCanceled)
      else if failed_at ord \<noteq> None then (False, Log WARNING OrderFailed)
      else (True, Log INFO OrderFilled))"

definition ends_with :: "event list \<Rightarrow> event list \<Rightarrow> bool" where
  "ends_with new es = (length es \<le> length new \<and> drop (length new - length es) new = es)"

text \<open>
  How a supervision may end: on a latest report that has ended, with its verdict; or on
  one still open, with \<open>True\<close>, right after a cancel for that order and the
  fail-safe warning.
\<close>

definition exit_ok :: "broker \<Rightarrow> string \<Rightarrow> nat \<Rightarrow> event list \<Rightarrow> Order \<Rightarrow> bool \<Rightarrow> bool" where
  "exit_ok B cid k new ord b =
     (let rep = latest_report B cid k new ord in
      if is_open rep then
        b \<and> ends_with new [Call (cancel_order_by_id (id_hex rep)), Log WARNING ExceededTotalMaxTime]
      else b = fst (verdict rep) \<and> ends_with new [snd (verdict rep)])"

definition grows :: "AutomatedTrader \<Rightarrow> event list \<Rightarrow> AutomatedTrader \<Rightarrow> bool" where
  "grows s new s' = (events s' = events s @ new \<and> options s' = options s)"

text \<open>
  The events of a supervision in which no escalation runs: clock readings, sleeps, polls,
  a cancel, the fail-safe warning and the three verdicts.  The notice that the per-order
  time was exceeded and a submission are not among them.
\<close>

fun calm :: "event \<Rightarrow> bool" where
  "calm Time = True"
| "calm Sleep = True"
| "calm (Call (get_order_by_client_id c)) = True"
| "calm (Call (cancel_order_by_id i)) = True"
| "calm (Log WARNING ExceededTotalMaxTime) = True"
| "calm (Log DEBUG OrderCanceled) = True"
| "calm (Log WARNING OrderFailed) = True"
| "calm (Log INFO OrderFilled) = True"
| "calm e = False"

text \<open>
  The elapsed time that a supervision started at event \<open>k0\<close> computes from the
  reading at event \<open>k\<close>.  A steady clock: that time never decreases, and over a sleep
  and a poll (three events) it grows by at most \<open>gap\<close>.  An advancing clock: over one
  turn of the loop (four events) it grows by at least \<open>step\<close>.
\<close>

definition elapsed_at :: "broker \<Rightarrow> nat \<Rightarrow> nat \<Rightarrow> rat" where
  "elapsed_at B k0 k = fsub (time_reply B k) (time_reply B k0)"

definition steady_clock :: "broker \<Rightarrow> nat \<Rightarrow> rat \<Rightarrow> bool" where
  "steady_clock B k0 gap =
     (\<forall>k. elapsed_at B k0 k \<le> elapsed_at B k0 (Suc k) \<and>
          elapsed_at B k0 (k + 3) - elapsed_at B k0 k \<le> gap)"

definition advancing_clock :: "broker \<Rightarrow> nat \<Rightarrow> rat \<Rightarrow> bool" where
  "advancing_clock B k0 step =
     (0 < step \<and> (\<forall>k. elapsed_at B k0 k + step \<le> elapsed_at B k0 (k + 4)))"

section \<open>The constructor refuses test mode on a real-money account\<close>

text \<open>
  C10.  When the options, after the overrides of \<^verbatim>\<open>newOptions\<close>, have \<^verbatim>\<open>enabled\<close> and
  \<^verbatim>\<open>testMode\<close> true and the credentials are for real money (\<^verbatim>\<open>paper\<close> false), the
  constructor raises.  At that point nothing has been parsed, no order has been built,
  and the trace holds no broker call beyond those it held before: no account, order or
  position was fetched and nothing was submitted or cancelled.
\<close>

theorem init_config_conflict:
  assumes "enabled (foldl update_option settings newOptions)"
    and "testMode (foldl update_option settings newOptions)"
    and "\<not> ppr"
  shows "\<exists>e self. init B fuel settings evs key secret ppr rq newOptions = Raised e self \<and>
           (e = ExtraOptions \<or> e = ConfigConflict) \<and>
           data self = None \<and> order_data self = None \<and>
           calls (events self) = calls evs"
  using assms by (simp add: init_def calls_def log_def emit_def Let_def)

theorem init_config_conflict_witness:
  "enabled (foldl update_option example_settings []) \<and>
   testMode (foldl update_option example_settings []) \<and>
   (\<exists>e self. init filling_broker 5 example_settings [] [] [] False
                ''order buy | MSFT@337.57 | x'' [] = Raised e self \<and>
      (e = ExtraOptions \<or> e = ConfigConflict) \<and>
      data self = None \<and> order_data self = None \<and>
      calls (events self) = calls [])"
  using init_config_conflict [of example_settings "[]" False filling_broker 5 "[]" "[]" "[]"
      "''order buy | MSFT@337.57 | x''"]
  by (simp add: example_settings_def)

section \<open>Building the order request\<close>






section \<open>A signal that no rule handles\<close>

text \<open>
  C4.  The alert \<^verbatim>\<open>LDC Bear Short | CLSK@4.015 | (1)\<close> is parsed (action \<^verbatim>\<open>Bear\<close>,
  position \<^verbatim>\<open>Short\<close>) and no rule of \<^verbatim>\<open>createOrder\<close> takes it.  The unhandled order is
  logged and nothing is submitted, but the method does not end there: the sized amount
  (4981 shares) is positive, the call of \<^verbatim>\<open>orderType\<close> reads the local \<^verbatim>\<open>side\<close>, which
  no branch assigned, and the constructor ends with an UnboundLocalError.
\<close>

theorem unhandled_signal_raises:
  "outcome (init filling_broker 5 example_settings [] [] [] True
      ''LDC Bear Short | CLSK@4.015 | (1)'' []) =
   Some (Some UnboundLocalError,
     [Call get_orders, Call (get_orders_for ''CLSK''), Call (get_open_position ''CLSK''),
      Call get_account, Log ERROR UnhandledOrder])"
  by code_simp

section \<open>What one request leaves to the next\<close>

text \<open>
  C8.  Two requests served in sequence.  Alone, the alert for CLSK at 4.01 is priced
  with the configured offset 0.04, at 4.05.  After an alert for MSFT at 337.57, which is
  above the threshold, the settings of the module hold the offset 0.168785 that
  \<^verbatim>\<open>orderType\<close> wrote there, and the same alert for CLSK is priced at 4.18.
\<close>

theorem settings_leak_between_requests:
  "limitamt_and_orders (respond filling_broker 5 True (example_settings, [])
       (bytes_repr ''order buy | CLSK@4.01 | x'')) =
     Some (fl (1 / 25), [LimitOrderRequest ''CLSK'' (fl (81 / 20)) 4987 BUY GTC]) \<and>
   limitamt_and_orders (respond_twice filling_broker 5 True (example_settings, [])
       (bytes_repr ''order buy | MSFT@337.57 | x'') (bytes_repr ''order buy | CLSK@4.01 | x'')) =
     Some (fl (33757 / 200000),
       [LimitOrderRequest ''MSFT'' (fl (16887 / 50)) 59 BUY GTC,
        LimitOrderRequest ''CLSK'' (fl (209 / 50)) 4987 BUY GTC]) \<and>
   fl (1 / 25) \<noteq> fl (33757 / 200000) \<and> fl (81 / 20) \<noteq> fl (209 / 50)"
  by code_simp

end
